theory Spec2Isabelle
  imports Complex_Main "HOL-Library.Word" "HOL-Library.Log_Nat"
begin

unbundle bit_operations_syntax

section \<open>Machine types\<close>

type_synonym u8 = "8 word"
type_synonym i16 = "16 word"
type_synonym i32 = "32 word"
type_synonym u32 = "32 word"

section \<open>Floating point\<close>

text \<open>
  The cached measurements are \<^verbatim>\<open>float\<close>, IEEE binary32; the temperature and the
  gyro values of \<^verbatim>\<open>read\<close> are computed in \<^verbatim>\<open>double\<close>, taken as IEEE binary64,
  before they are narrowed. Every operation returns the exact result rounded to the nearest value of
  the format, ties to the even significand.

  \<open>round_even\<close> rounds a real to the nearest integer, ties to even.
\<close>

definition round_even :: "real \<Rightarrow> int" where
  "round_even t =
     (let f = \<lfloor>t\<rfloor>; r = t - of_int f
      in if r < 1 / 2 then f else if 1 / 2 < r then f + 1 else if even f then f else f + 1)"

text \<open>
  \<open>round_to p s x\<close> rounds \<open>x\<close> to a format with \<open>p\<close> significant bits whose smallest
  positive value is \<open>1 / 2 ^ s\<close>: in units of \<open>1 / 2 ^ s\<close> the values of the format are
  the integers of at most \<open>p\<close> bits and their multiples by powers of two, so a number of
  \<open>p + k\<close> bits is rounded to a multiple of \<open>2 ^ k\<close>. The exponent has no upper bound here.
\<close>

definition round_to :: "nat \<Rightarrow> nat \<Rightarrow> real \<Rightarrow> real" where
  "round_to p s x =
     (let y = x * 2 ^ s;
          k = nat (bitlen \<lfloor>\<bar>y\<bar>\<rfloor> - int p)
      in of_int (round_even (y / 2 ^ k)) * 2 ^ k / 2 ^ s)"

text \<open>
  A \<^verbatim>\<open>float\<close>: a finite value by the real number it denotes, the infinities and
  NaN. The two zeros, equal in C++, are the one value \<open>Finite 0\<close>.
\<close>

datatype float32 = Finite real | PlusInfinity | MinusInfinity | NaN

text \<open>
  Rounding to binary32: 24 significant bits, smallest positive value \<open>1 / 2 ^ 149\<close>,
  overflow to infinity when the rounded magnitude reaches \<open>2 ^ 128\<close>.
\<close>

definition to_float32 :: "real \<Rightarrow> float32" where
  "to_float32 x =
     (let r = round_to 24 149 x
      in if 2 ^ 128 \<le> \<bar>r\<bar> then (if r < 0 then MinusInfinity else PlusInfinity) else Finite r)"

text \<open>
  Rounding to binary64: 53 significant bits, smallest positive value \<open>1 / 2 ^ 1074\<close>. The
  doubles of \<^verbatim>\<open>read\<close> are quotients of 16-bit integers, far below the overflow
  threshold, so a double is the real number it denotes.
\<close>

definition to_double :: "real \<Rightarrow> real" where
  "to_double x = round_to 53 1074 x"

text \<open>The product of two floats.\<close>

fun f32_mult :: "float32 \<Rightarrow> float32 \<Rightarrow> float32" where
  "f32_mult (Finite a) (Finite b) = to_float32 (a * b)"
| "f32_mult NaN y = NaN"
| "f32_mult x NaN = NaN"
| "f32_mult (Finite a) PlusInfinity =
     (if a = 0 then NaN else if 0 < a then PlusInfinity else MinusInfinity)"
| "f32_mult (Finite a) MinusInfinity =
     (if a = 0 then NaN else if 0 < a then MinusInfinity else PlusInfinity)"
| "f32_mult PlusInfinity (Finite b) =
     (if b = 0 then NaN else if 0 < b then PlusInfinity else MinusInfinity)"
| "f32_mult MinusInfinity (Finite b) =
     (if b = 0 then NaN else if 0 < b then MinusInfinity else PlusInfinity)"
| "f32_mult PlusInfinity PlusInfinity = PlusInfinity"
| "f32_mult PlusInfinity MinusInfinity = MinusInfinity"
| "f32_mult MinusInfinity PlusInfinity = MinusInfinity"
| "f32_mult MinusInfinity MinusInfinity = PlusInfinity"

section \<open>What the header and the libraries declare\<close>

text \<open>
  The macros and enumerators of \<^verbatim>\<open>Adafruit_MPU6050.h\<close> that the source file uses.
  The header is not among the sources, so their values are parameters of every function
  below: the register addresses, the device id that \<^verbatim>\<open>WHO_AM_I\<close> is compared with,
  the four enumerators of \<^verbatim>\<open>mpu6050_range_t\<close> (an enumeration is an integer in C++),
  and \<^verbatim>\<open>sizeof(sensors_event_t)\<close>.
\<close>

record mpu6050_header =
  MPU6050_WHO_AM_I :: u8
  MPU6050_DEVICE_ID :: u32
  MPU6050_PWR_MGMT_1 :: u8
  MPU6050_SMPLRT_DIV :: u8
  MPU6050_CONFIG :: u8
  MPU6050_GYRO_CONFIG :: u8
  MPU6050_ACCEL_CONFIG :: u8
  MPU6050_ACCEL_OUT :: u8
  MPU6050_RANGE_2_G :: u32
  MPU6050_RANGE_4_G :: u32
  MPU6050_RANGE_8_G :: u32
  MPU6050_RANGE_16_G :: u32
  sizeof_sensors_event_t :: i32

text \<open>
  The bus transport and the chip behind it are external. A transport over a device state
  \<open>'d\<close> gives what the driver calls:
  \<^item> \<open>dev_begin\<close>: \<^verbatim>\<open>Adafruit_I2CDevice(address, wire).begin()\<close>;
  \<^item> \<open>reg_read\<close>: \<^verbatim>\<open>Adafruit_BusIO_Register(dev, reg, 1).read()\<close>, the value of a
    one-byte register as a \<^verbatim>\<open>uint32_t\<close> (whatever the library returns when the
    transaction fails is one of these values too);
  \<^item> \<open>reg_read_buf\<close>: \<^verbatim>\<open>Adafruit_BusIO_Register(dev, reg, n).read(buffer, n)\<close>, the
    contents of the buffer after the call, by index;
  \<^item> \<open>reg_write\<close>: \<^verbatim>\<open>Adafruit_BusIO_Register(dev, reg, 1).write(value)\<close>;
  \<^item> \<open>delay\<close>: the Arduino \<^verbatim>\<open>delay(ms)\<close>, during which the chip may change state.
  Every call takes the device state and returns the new one.
\<close>

record 'd transport =
  dev_begin :: "u8 \<Rightarrow> 'd \<Rightarrow> bool \<times> 'd"
  reg_read :: "u8 \<Rightarrow> 'd \<Rightarrow> u32 \<times> 'd"
  reg_read_buf :: "u8 \<Rightarrow> nat \<Rightarrow> 'd \<Rightarrow> (nat \<Rightarrow> u8) \<times> 'd"
  reg_write :: "u8 \<Rightarrow> u32 \<Rightarrow> 'd \<Rightarrow> 'd"
  delay :: "nat \<Rightarrow> 'd \<Rightarrow> 'd"

text \<open>
  Modelled from the spec: \<^verbatim>\<open>Adafruit_BusIO_RegisterBits\<close> belongs to the BusIO library,
  which is not among the sources. The spec says that the range is a 2-bit field of the
  accelerometer configuration register, read without side effects, and that a write is
  isolated to the field's window and leaves the other bits of the register byte as they
  are. \<open>RegisterBits_read\<close> reads the register, shifts the field down and masks it;
  \<open>RegisterBits_write\<close> reads the register, replaces the window by the masked data and
  writes the register back.
\<close>

definition RegisterBits_read :: "'d transport \<Rightarrow> u8 \<Rightarrow> nat \<Rightarrow> nat \<Rightarrow> 'd \<Rightarrow> u32 \<times> 'd" where
  "RegisterBits_read b reg bits shift d =
     (let (val, d1) = reg_read b reg d
      in (drop_bit shift val AND (push_bit bits 1 - 1), d1))"

definition RegisterBits_write :: "'d transport \<Rightarrow> u8 \<Rightarrow> nat \<Rightarrow> nat \<Rightarrow> u32 \<Rightarrow> 'd \<Rightarrow> 'd" where
  "RegisterBits_write b reg bits shift data d =
     (let (val, d1) = reg_read b reg d;
          mask = push_bit bits 1 - 1;
          data1 = data AND mask;
          mask1 = push_bit shift mask;
          val1 = (val AND NOT mask1) OR push_bit shift data1
      in reg_write b reg val1 d1)"

text \<open>
  Modelled from the spec: \<^verbatim>\<open>SENSORS_GRAVITY_STANDARD\<close> is a macro of the unified sensor
  library, not among the sources; the spec gives the standard-gravity constant 9.80665.
  It is a \<^verbatim>\<open>float\<close> constant: the binary32 value nearest to 9.80665.
\<close>

definition SENSORS_GRAVITY_STANDARD :: float32 where
  "SENSORS_GRAVITY_STANDARD = to_float32 (980665 / 100000)"

text \<open>The three type tags of \<^verbatim>\<open>sensors_type_t\<close> that the driver uses.\<close>

datatype sensors_type_t =
  SENSOR_TYPE_ACCELEROMETER
  | SENSOR_TYPE_GYROSCOPE
  | SENSOR_TYPE_AMBIENT_TEMPERATURE

text \<open>
  \<^verbatim>\<open>sensors_event_t\<close>: the fields the driver sets, and the member of the union of
  payloads that it fills after \<^verbatim>\<open>memset\<close> has cleared the event.
\<close>

datatype sensors_payload =
  Acceleration float32 float32 float32
  | Gyro float32 float32 float32
  | Temperature float32

record sensors_event_t =
  version :: i32
  sensor_id :: i32
  type :: sensors_type_t
  timestamp :: i32
  payload :: sensors_payload

section \<open>The driver object\<close>

text \<open>
  The fields of \<^verbatim>\<open>class Adafruit_MPU6050\<close> that the source file reads and writes
  (the source's \<^verbatim>\<open>_sensorid_accel\<close> is \<open>sensorid_accel\<close> here, and so on), and
  \<open>i2c_dev\<close>, the state of the device behind the transport.
\<close>

record 'd Adafruit_MPU6050 =
  i2c_dev :: 'd
  sensorid_accel :: i32
  sensorid_gyro :: i32
  sensorid_temp :: i32
  rawAccX :: i16
  rawAccY :: i16
  rawAccZ :: i16
  rawTemp :: i16
  rawGyroX :: i16
  rawGyroY :: i16
  rawGyroZ :: i16
  temperature :: float32
  accX :: float32
  accY :: float32
  accZ :: float32
  gyroX :: float32
  gyroY :: float32
  gyroZ :: float32

text \<open>
  The constructor \<^verbatim>\<open>Adafruit_MPU6050::Adafruit_MPU6050(void) {}\<close> has an empty body and
  assigns no field: the new driver holds what its storage holds.
\<close>

definition Adafruit_MPU6050_ctor :: "'d Adafruit_MPU6050 \<Rightarrow> 'd Adafruit_MPU6050" where
  "Adafruit_MPU6050_ctor storage = storage"

section \<open>Initialization\<close>

text \<open>
  The loop of \<^verbatim>\<open>_init\<close> that waits for the end of the reset:
  \<^verbatim>\<open>while (power_mgmt_1.read() != 0b01000000) { delay(10); }\<close>.
  It has no bound, so the model is a partial function: \<open>None\<close> means that the loop
  never ends.
\<close>

partial_function (option) reset_poll :: "'d transport \<Rightarrow> u8 \<Rightarrow> 'd \<Rightarrow> 'd option" where
  "reset_poll b reg d =
     (case reg_read b reg d of
        (v, d1) \<Rightarrow> if v \<noteq> 0x40 then reset_poll b reg (delay b 10 d1) else Some d1)"

text \<open>The device state in front of the \<open>n\<close>-th read of the loop, the reads before it having failed the test.\<close>

primrec poll_state :: "'d transport \<Rightarrow> u8 \<Rightarrow> nat \<Rightarrow> 'd \<Rightarrow> 'd" where
  "poll_state b reg 0 d = d"
| "poll_state b reg (Suc n) d = poll_state b reg n (delay b 10 (snd (reg_read b reg d)))"

definition init ::
  "mpu6050_header \<Rightarrow> 'd transport \<Rightarrow> i32 \<Rightarrow> 'd Adafruit_MPU6050 \<Rightarrow> (bool \<times> 'd Adafruit_MPU6050) option"
where
  "init h b sensorID s =
     (let (chip_id, d1) = reg_read b (MPU6050_WHO_AM_I h) (i2c_dev s)
      in if chip_id \<noteq> MPU6050_DEVICE_ID h then Some (False, s\<lparr>i2c_dev := d1\<rparr>)
         else
           let s1 = s\<lparr>sensorid_accel := sensorID,
                      sensorid_gyro := sensorID + 1,
                      sensorid_temp := sensorID + 2\<rparr>;
               d2 = reg_write b (MPU6050_PWR_MGMT_1 h) 0x80 d1
           in case reset_poll b (MPU6050_PWR_MGMT_1 h) d2 of
                None \<Rightarrow> None
              | Some d3 \<Rightarrow>
                  let d4 = reg_write b (MPU6050_SMPLRT_DIV h) 0x00 d3;
                      d5 = reg_write b (MPU6050_CONFIG h) 0x00 d4;
                      d6 = reg_write b (MPU6050_GYRO_CONFIG h) 0x08 d5;
                      d7 = reg_write b (MPU6050_ACCEL_CONFIG h) 0x00 d6;
                      d8 = reg_write b (MPU6050_PWR_MGMT_1 h) 0x01 d7;
                      d9 = delay b 100 d8
                  in Some (True, s1\<lparr>i2c_dev := d9\<rparr>))"

text \<open>
  \<^verbatim>\<open>begin(i2c_address, wire, sensorID)\<close>; the transport \<open>b\<close> stands for
  \<^verbatim>\<open>wire\<close> and the device object built on it.
\<close>

definition begin_mpu ::
  "mpu6050_header \<Rightarrow> 'd transport \<Rightarrow> u8 \<Rightarrow> i32 \<Rightarrow> 'd Adafruit_MPU6050 \<Rightarrow> (bool \<times> 'd Adafruit_MPU6050) option"
where
  "begin_mpu h b i2c_address sensorID s =
     (let (ok, d1) = dev_begin b i2c_address (i2c_dev s)
      in if \<not> ok then Some (False, s\<lparr>i2c_dev := d1\<rparr>)
         else init h b sensorID (s\<lparr>i2c_dev := d1\<rparr>))"

section \<open>Range, read and events\<close>

definition getAccelerometerRange ::
  "mpu6050_header \<Rightarrow> 'd transport \<Rightarrow> 'd Adafruit_MPU6050 \<Rightarrow> u32 \<times> 'd Adafruit_MPU6050"
where
  "getAccelerometerRange h b s =
     (let (r, d1) = RegisterBits_read b (MPU6050_ACCEL_CONFIG h) 2 3 (i2c_dev s)
      in (r, s\<lparr>i2c_dev := d1\<rparr>))"

definition setAccelerometerRange ::
  "mpu6050_header \<Rightarrow> 'd transport \<Rightarrow> u32 \<Rightarrow> 'd Adafruit_MPU6050 \<Rightarrow> 'd Adafruit_MPU6050"
where
  "setAccelerometerRange h b new_range s =
     s\<lparr>i2c_dev := RegisterBits_write b (MPU6050_ACCEL_CONFIG h) 2 3 new_range (i2c_dev s)\<rparr>"

text \<open>\<^verbatim>\<open>buffer[i] << 8 | buffer[i + 1]\<close>, stored in an \<^verbatim>\<open>int16_t\<close>.\<close>

definition be16 :: "u8 \<Rightarrow> u8 \<Rightarrow> i16" where
  "be16 hi lo = push_bit 8 (ucast hi) OR ucast lo"

text \<open>The four \<^verbatim>\<open>if\<close> statements of \<^verbatim>\<open>read\<close> that choose the divisor, in their order.\<close>

definition accel_scale :: "mpu6050_header \<Rightarrow> u32 \<Rightarrow> real" where
  "accel_scale h range_v =
     (let scale = 1;
          scale = (if range_v = MPU6050_RANGE_16_G h then 2048 else scale);
          scale = (if range_v = MPU6050_RANGE_8_G h then 4096 else scale);
          scale = (if range_v = MPU6050_RANGE_4_G h then 8192 else scale);
          scale = (if range_v = MPU6050_RANGE_2_G h then 16384 else scale)
      in scale)"

text \<open>
  \<^verbatim>\<open>read\<close>. The conversions \<^verbatim>\<open>(float)rawAccX\<close> of 16-bit integers and the sum
  \<^verbatim>\<open>rawTemp + 12412.0\<close> are exact. The accelerations are \<^verbatim>\<open>float\<close> quotients,
  rounded once; the temperature and the gyro values are \<^verbatim>\<open>double\<close> quotients, by the
  \<^verbatim>\<open>double\<close> constants 340.0 and 65.5, narrowed to \<^verbatim>\<open>float\<close> by the assignment.
\<close>

definition read ::
  "mpu6050_header \<Rightarrow> 'd transport \<Rightarrow> 'd Adafruit_MPU6050 \<Rightarrow> 'd Adafruit_MPU6050"
where
  "read h b s =
     (let (buffer, d1) = reg_read_buf b (MPU6050_ACCEL_OUT h) 14 (i2c_dev s);
          s1 = s\<lparr>i2c_dev := d1,
                 rawAccX := be16 (buffer 0) (buffer 1),
                 rawAccY := be16 (buffer 2) (buffer 3),
                 rawAccZ := be16 (buffer 4) (buffer 5),
                 rawTemp := be16 (buffer 6) (buffer 7),
                 rawGyroX := be16 (buffer 8) (buffer 9),
                 rawGyroY := be16 (buffer 10) (buffer 11),
                 rawGyroZ := be16 (buffer 12) (buffer 13)\<rparr>;
          (range_v, s2) = getAccelerometerRange h b s1;
          scale = accel_scale h range_v
      in s2\<lparr>accX := to_float32 (real_of_int (sint (rawAccX s2)) / scale),
            accY := to_float32 (real_of_int (sint (rawAccY s2)) / scale),
            accZ := to_float32 (real_of_int (sint (rawAccZ s2)) / scale),
            temperature :=
              to_float32 (to_double ((real_of_int (sint (rawTemp s2)) + 12412) / 340)),
            gyroX := to_float32 (to_double (real_of_int (sint (rawGyroX s2)) / (655 / 10))),
            gyroY := to_float32 (to_double (real_of_int (sint (rawGyroY s2)) / (655 / 10))),
            gyroZ := to_float32 (to_double (real_of_int (sint (rawGyroZ s2)) / (655 / 10)))\<rparr>)"

text \<open>
  \<^verbatim>\<open>getEvent(accel, gyro, temp)\<close>: the returned flag and the three events written
  through the pointers, with the driver after the call. The call to \<^verbatim>\<open>read\<close> of the
  source is commented out, so the driver is returned as it was.
\<close>

definition getEvent ::
  "mpu6050_header \<Rightarrow> 'd Adafruit_MPU6050 \<Rightarrow>
     (bool \<times> sensors_event_t \<times> sensors_event_t \<times> sensors_event_t) \<times> 'd Adafruit_MPU6050"
where
  "getEvent h s =
     (let accel = \<lparr> version = sizeof_sensors_event_t h,
                    sensor_id = sensorid_accel s,
                    type = SENSOR_TYPE_ACCELEROMETER,
                    timestamp = 0,
                    payload = Acceleration (f32_mult (accX s) SENSORS_GRAVITY_STANDARD)
                                           (f32_mult (accY s) SENSORS_GRAVITY_STANDARD)
                                           (f32_mult (accZ s) SENSORS_GRAVITY_STANDARD) \<rparr>;
          gyro = \<lparr> version = sizeof_sensors_event_t h,
                   sensor_id = sensorid_gyro s,
                   type = SENSOR_TYPE_GYROSCOPE,
                   timestamp = 0,
                   payload = Gyro (gyroX s) (gyroY s) (gyroZ s) \<rparr>;
          temp = \<lparr> version = sizeof_sensors_event_t h,
                   sensor_id = sensorid_temp s,
                   type = SENSOR_TYPE_AMBIENT_TEMPERATURE,
                   timestamp = 0,
                   payload = Temperature (temperature s) \<rparr>
      in ((True, accel, gyro, temp), s))"

section \<open>Notions used in the statements\<close>

text \<open>
  The register at \<open>reg\<close> keeps what is written to it: a read that follows a write
  returns the low byte of the written value.
\<close>

definition register_like :: "'d transport \<Rightarrow> u8 \<Rightarrow> bool" where
  "register_like b reg \<longleftrightarrow>
     (\<forall>d v. fst (reg_read b reg (reg_write b reg v d)) = v AND 0xFF)"

text \<open>The four enumerators of the range fit the 2-bit field.\<close>

definition range_fits :: "mpu6050_header \<Rightarrow> bool" where
  "range_fits h \<longleftrightarrow>
     MPU6050_RANGE_2_G h < 4 \<and> MPU6050_RANGE_4_G h < 4 \<and>
     MPU6050_RANGE_8_G h < 4 \<and> MPU6050_RANGE_16_G h < 4"

text \<open>The range that \<open>read\<close> reads back, after its burst read.\<close>

definition read_range :: "mpu6050_header \<Rightarrow> 'd transport \<Rightarrow> 'd Adafruit_MPU6050 \<Rightarrow> u32" where
  "read_range h b s =
     fst (getAccelerometerRange h b
            (s\<lparr>i2c_dev := snd (reg_read_buf b (MPU6050_ACCEL_OUT h) 14 (i2c_dev s))\<rparr>))"

text \<open>The value that the identification read of \<open>begin_mpu\<close> returns, once the transport is open.\<close>

definition chip_id_read :: "mpu6050_header \<Rightarrow> 'd transport \<Rightarrow> u8 \<Rightarrow> 'd Adafruit_MPU6050 \<Rightarrow> u32" where
  "chip_id_read h b address s =
     fst (reg_read b (MPU6050_WHO_AM_I h) (snd (dev_begin b address (i2c_dev s))))"

text \<open>
  The device state after \<open>begin_mpu\<close> has opened the transport, read the identification
  register and written the reset bit: the state in which the loop starts.
\<close>

definition reset_written :: "mpu6050_header \<Rightarrow> 'd transport \<Rightarrow> u8 \<Rightarrow> 'd Adafruit_MPU6050 \<Rightarrow> 'd" where
  "reset_written h b address s =
     reg_write b (MPU6050_PWR_MGMT_1 h) 0x80
       (snd (reg_read b (MPU6050_WHO_AM_I h) (snd (dev_begin b address (i2c_dev s)))))"

text \<open>The flag and the three events of \<open>getEvent\<close>, one by one.\<close>

definition getEvent_result :: "mpu6050_header \<Rightarrow> 'd Adafruit_MPU6050 \<Rightarrow> bool" where
  "getEvent_result h s = fst (fst (getEvent h s))"

definition accel_event :: "mpu6050_header \<Rightarrow> 'd Adafruit_MPU6050 \<Rightarrow> sensors_event_t" where
  "accel_event h s = fst (snd (fst (getEvent h s)))"

definition gyro_event :: "mpu6050_header \<Rightarrow> 'd Adafruit_MPU6050 \<Rightarrow> sensors_event_t" where
  "gyro_event h s = fst (snd (snd (fst (getEvent h s))))"

definition temp_event :: "mpu6050_header \<Rightarrow> 'd Adafruit_MPU6050 \<Rightarrow> sensors_event_t" where
  "temp_event h s = snd (snd (snd (fst (getEvent h s))))"

subsection \<open>Concrete devices and constants, for the instances\<close>

text \<open>The register map of the data sheet, with the range codes 0 to 3.\<close>

definition datasheet_header :: mpu6050_header where
  "datasheet_header =
     \<lparr> MPU6050_WHO_AM_I = 0x75, MPU6050_DEVICE_ID = 0x68, MPU6050_PWR_MGMT_1 = 0x6B,
       MPU6050_SMPLRT_DIV = 0x19, MPU6050_CONFIG = 0x1A, MPU6050_GYRO_CONFIG = 0x1B,
       MPU6050_ACCEL_CONFIG = 0x1C, MPU6050_ACCEL_OUT = 0x3B,
       MPU6050_RANGE_2_G = 0, MPU6050_RANGE_4_G = 1, MPU6050_RANGE_8_G = 2,
       MPU6050_RANGE_16_G = 3, sizeof_sensors_event_t = 36 \<rparr>"

text \<open>A plain register file: 256 byte registers that keep what is written and never change by themselves.\<close>

definition regfile :: "(u8 \<Rightarrow> u8) transport" where
  "regfile =
     \<lparr> dev_begin = (\<lambda>address d. (True, d)),
       reg_read = (\<lambda>reg d. (ucast (d reg), d)),
       reg_read_buf = (\<lambda>reg n d. (\<lambda>i. d (reg + of_nat i), d)),
       reg_write = (\<lambda>reg v d. d(reg := ucast v)),
       delay = (\<lambda>ms d. d) \<rparr>"

text \<open>
  A register file whose register \<open>pwr\<close> shows the post-reset value as soon as the reset
  bit is written to it: a chip that ends its reset at once.
\<close>

definition resetting_chip :: "u8 \<Rightarrow> (u8 \<Rightarrow> u8) transport" where
  "resetting_chip pwr =
     \<lparr> dev_begin = (\<lambda>address d. (True, d)),
       reg_read = (\<lambda>reg d. (ucast (d reg), d)),
       reg_read_buf = (\<lambda>reg n d. (\<lambda>i. d (reg + of_nat i), d)),
       reg_write = (\<lambda>reg v d. if reg = pwr \<and> v = 0x80 then d(reg := 0x40) else d(reg := ucast v)),
       delay = (\<lambda>ms d. d) \<rparr>"

text \<open>
  Storage filled with zeros, in front of a device in state \<open>d\<close>: what an object with
  static storage duration occupies before its constructor runs.
\<close>

definition zero_storage :: "'d \<Rightarrow> 'd Adafruit_MPU6050" where
  "zero_storage d =
     \<lparr> i2c_dev = d,
       sensorid_accel = 0, sensorid_gyro = 0, sensorid_temp = 0,
       rawAccX = 0, rawAccY = 0, rawAccZ = 0, rawTemp = 0,
       rawGyroX = 0, rawGyroY = 0, rawGyroZ = 0,
       temperature = Finite 0, accX = Finite 0, accY = Finite 0, accZ = Finite 0,
       gyroX = Finite 0, gyroY = Finite 0, gyroZ = Finite 0 \<rparr>"

text \<open>A driver constructed in zero-filled storage.\<close>

definition static_driver :: "'d \<Rightarrow> 'd Adafruit_MPU6050" where
  "static_driver d = Adafruit_MPU6050_ctor (zero_storage d)"


text \<open>A bus on which no device answers: the transport does not open.\<close>

definition closed_bus :: "(u8 \<Rightarrow> u8) transport" where
  "closed_bus =
     \<lparr> dev_begin = (\<lambda>address d. (False, d)),
       reg_read = (\<lambda>reg d. (0xFFFFFFFF, d)),
       reg_read_buf = (\<lambda>reg n d. (\<lambda>i. 0, d)),
       reg_write = (\<lambda>reg v d. d),
       delay = (\<lambda>ms d. d) \<rparr>"

text \<open>Register contents that are all zero: no chip identity, raw sample zero.\<close>

definition blank_regs :: "u8 \<Rightarrow> u8" where
  "blank_regs = (\<lambda>reg. 0)"

text \<open>
  Register contents of a chip at rest: the identity register holds the device id, the
  accelerometer configuration register holds \<open>cfg\<close>, and the output registers hold the
  sample X = 8192, Y = -8192, Z = 0, temperature -12412, gyro X = 131.
\<close>

definition sample_regs :: "u8 \<Rightarrow> u8 \<Rightarrow> u8" where
  "sample_regs cfg =
     (\<lambda>reg. 0)(0x75 := 0x68, 0x1C := cfg, 0x3B := 0x20, 0x3D := 0xE0,
               0x41 := 0xCF, 0x42 := 0x84, 0x44 := 0x83)"

section \<open>Rounding\<close>

lemma round_even_of_int: "round_even (of_int z) = z"
  by (simp add: round_even_def)

lemma round_even_error: "\<bar>of_int (round_even t) - t\<bar> \<le> 1 / 2"
proof -
  have "of_int \<lfloor>t\<rfloor> \<le> t" "t < of_int \<lfloor>t\<rfloor> + 1" by linarith+
  then show ?thesis by (auto simp: round_even_def Let_def)
qed

lemma bitlen_eqI: "2 ^ m \<le> n \<Longrightarrow> n < 2 ^ Suc m \<Longrightarrow> bitlen n = int m + 1"
  using bitlen_le_iff_power [of n "int m + 1"] bitlen_ge_iff_power [of "int m + 1" n]
  by (simp add: nat_add_distrib)

lemma bitlen_floor_eqI:
  fixes y :: real
  assumes "2 ^ m \<le> y" "y < 2 ^ Suc m"
  shows "bitlen \<lfloor>y\<rfloor> = int m + 1"
proof (rule bitlen_eqI)
  from assms(1) show "2 ^ m \<le> \<lfloor>y\<rfloor>" by (simp add: le_floor_iff)
  from assms(2) show "\<lfloor>y\<rfloor> < 2 ^ Suc m" by (simp add: floor_less_iff)
qed

lemma round_to_shift:
  assumes lo: "2 ^ (p - 1) \<le> \<bar>x\<bar> * 2 ^ j" and hi: "\<bar>x\<bar> * 2 ^ j < 2 ^ p"
    and j: "j \<le> s" and p: "0 < p"
  shows "round_to p s x = of_int (round_even (x * 2 ^ j)) / 2 ^ j"
proof -
  have s: "(2::real) ^ s = 2 ^ j * 2 ^ (s - j)"
    using j by (simp flip: power_add)
  have y: "\<bar>x * 2 ^ s\<bar> = \<bar>x\<bar> * 2 ^ j * 2 ^ (s - j)"
    by (simp add: s abs_mult)
  have "2 ^ (p - 1 + (s - j)) \<le> \<bar>x * 2 ^ s\<bar>"
    unfolding y power_add using lo by (simp add: mult_right_mono)
  moreover have "\<bar>x * 2 ^ s\<bar> < 2 ^ Suc (p - 1 + (s - j))"
  proof -
    have "\<bar>x\<bar> * 2 ^ j * 2 ^ (s - j) < 2 ^ p * 2 ^ (s - j)"
      using hi by (simp add: mult_strict_right_mono)
    also have "\<dots> = 2 ^ Suc (p - 1 + (s - j))"
      using p by (simp flip: power_add power_Suc)
    finally show ?thesis unfolding y .
  qed
  ultimately have "bitlen \<lfloor>\<bar>x * 2 ^ s\<bar>\<rfloor> = int (p - 1 + (s - j)) + 1"
    by (rule bitlen_floor_eqI)
  then have k: "nat (bitlen \<lfloor>\<bar>x * 2 ^ s\<bar>\<rfloor> - int p) = s - j"
    using p by simp
  have "x * 2 ^ s / 2 ^ (s - j) = x * 2 ^ j"
    by (simp add: s)
  then show ?thesis
    by (simp add: round_to_def Let_def k) (simp add: s)
qed

lemma round_to_zero: "round_to p s 0 = 0"
  by (simp add: round_to_def round_even_def)

lemma round_to_exact:
  assumes m: "\<bar>m\<bar> < 2 ^ p" and i: "i + p \<le> s" and p: "0 < p"
  shows "round_to p s (of_int m / 2 ^ i) = of_int m / 2 ^ i"
proof (cases "m = 0")
  case True
  then show ?thesis by (simp add: round_to_zero)
next
  case False
  then have pos: "0 < \<bar>m\<bar>" by simp
  define b where "b = nat (bitlen \<bar>m\<bar>)"
  have nb: "nat (bitlen \<bar>m\<bar> - 1) = b - 1"
    using nat_diff_distrib' [of "bitlen \<bar>m\<bar>" 1] bitlen_nonneg [of "\<bar>m\<bar>"] by (simp add: b_def)
  from bitlen_bounds [OF pos] have lo: "2 ^ (b - 1) \<le> \<bar>m\<bar>" and hi: "\<bar>m\<bar> < 2 ^ b"
    by (simp_all only: nb b_def)
  from hi pos have b1: "0 < b" by (cases b) auto
  from m have "bitlen \<bar>m\<bar> \<le> int p" by (simp add: bitlen_le_iff_power)
  then have bp: "b \<le> p" by (simp add: b_def)
  define j where "j = i + (p - b)"
  have x: "of_int m / 2 ^ i * 2 ^ j = (of_int (m * 2 ^ (p - b)) :: real)"
    by (simp add: j_def power_add)
  have ax: "\<bar>of_int m / 2 ^ i :: real\<bar> * 2 ^ j = of_int (\<bar>m\<bar> * 2 ^ (p - b))"
    by (simp add: j_def power_add abs_mult)
  have p1: "p - 1 = (b - 1) + (p - b)" and p2: "p = b + (p - b)"
    using b1 bp by simp_all
  have "(2::int) ^ (p - 1) \<le> \<bar>m\<bar> * 2 ^ (p - b)"
    by (subst p1, subst power_add) (use lo in \<open>simp add: mult_right_mono\<close>)
  then have l: "(2::real) ^ (p - 1) \<le> \<bar>of_int m / 2 ^ i\<bar> * 2 ^ j"
    unfolding ax by (metis of_int_le_iff of_int_numeral of_int_power)
  have "\<bar>m\<bar> * 2 ^ (p - b) < (2::int) ^ p"
    by (subst (2) p2, subst power_add) (use hi in \<open>simp add: mult_strict_right_mono\<close>)
  then have h: "\<bar>of_int m / 2 ^ i :: real\<bar> * 2 ^ j < 2 ^ p"
    unfolding ax by (metis of_int_less_iff of_int_numeral of_int_power)
  have js: "j \<le> s" using i bp by (simp add: j_def)
  have "round_to p s (of_int m / 2 ^ i) = of_int (m * 2 ^ (p - b)) / 2 ^ j"
    by (simp only: round_to_shift [OF l h js p] x round_even_of_int)
  also have "\<dots> = of_int m / 2 ^ i"
    by (simp add: j_def power_add)
  finally show ?thesis .
qed

lemma round_to_error:
  "\<bar>round_to p s x - x\<bar> \<le> 2 ^ nat (bitlen \<lfloor>\<bar>x * 2 ^ s\<bar>\<rfloor> - int p) / 2 ^ Suc s"
proof -
  define k where "k = nat (bitlen \<lfloor>\<bar>x * 2 ^ s\<bar>\<rfloor> - int p)"
  define t where "t = x * 2 ^ s / 2 ^ k"
  have x: "x = t * 2 ^ k / 2 ^ s" by (simp add: t_def)
  have r: "round_to p s x = of_int (round_even t) * 2 ^ k / 2 ^ s"
    by (simp add: round_to_def Let_def k_def t_def)
  have "round_to p s x - x = (of_int (round_even t) - t) * (2 ^ k / 2 ^ s)"
    by (subst (2) x) (simp add: r algebra_simps diff_divide_distrib)
  then have "\<bar>round_to p s x - x\<bar> = \<bar>of_int (round_even t) - t\<bar> * (2 ^ k / 2 ^ s)"
    by (simp add: abs_mult)
  also have "\<dots> \<le> 1 / 2 * (2 ^ k / 2 ^ s)"
    by (rule mult_right_mono [OF round_even_error]) simp
  finally show ?thesis by (simp add: k_def)
qed


lemma round_to_rel_error:
  assumes p: "0 < p"
  shows "\<bar>round_to p s x - x\<bar> \<le> \<bar>x\<bar> / 2 ^ p + 1 / 2 ^ Suc s"
proof -
  define n where "n = \<lfloor>\<bar>x * 2 ^ s\<bar>\<rfloor>"
  define k where "k = nat (bitlen n - int p)"
  have e: "\<bar>round_to p s x - x\<bar> \<le> 2 ^ k / 2 ^ Suc s"
    using round_to_error [of p s x] by (simp add: k_def n_def)
  show ?thesis
  proof (cases "k = 0")
    case True
    from e True have "\<bar>round_to p s x - x\<bar> \<le> 1 / 2 ^ Suc s" by simp
    moreover have "0 \<le> \<bar>x\<bar> / 2 ^ p" by simp
    ultimately show ?thesis by linarith
  next
    case False
    then have bl: "int p < bitlen n" by (simp add: k_def)
    then have npos: "0 < n" using bitlen_eq_zero_iff [of n] bitlen_nonneg [of n] p
      by (cases "0 < n") auto
    have kk: "nat (bitlen n - 1) = k + (p - 1)"
      using bl p by (simp add: k_def)
    from bitlen_bounds [OF npos] have "(2::int) ^ (k + (p - 1)) \<le> n" by (simp add: kk)
    then have "(2::real) ^ (k + (p - 1)) \<le> of_int n"
      by (metis of_int_le_iff of_int_numeral of_int_power)
    also have "\<dots> \<le> \<bar>x * 2 ^ s\<bar>" by (simp add: n_def)
    finally have "(2::real) ^ k * 2 ^ (p - 1) \<le> \<bar>x\<bar> * 2 ^ s"
      by (simp add: power_add abs_mult)
    then have "(2::real) ^ k * 2 ^ (p - 1) * 2 \<le> \<bar>x\<bar> * 2 ^ s * 2" by simp
    then have "(2::real) ^ k * 2 ^ p \<le> \<bar>x\<bar> * 2 ^ Suc s"
      using p by (cases p) (simp_all add: mult.assoc)
    then have "(2::real) ^ k / 2 ^ Suc s \<le> \<bar>x\<bar> / 2 ^ p"
      by (simp add: field_simps)
    with e have "\<bar>round_to p s x - x\<bar> \<le> \<bar>x\<bar> / 2 ^ p" by linarith
    then show ?thesis by (simp add: add_increasing2)
  qed
qed



lemma to_float32_Finite:
  "\<bar>round_to 24 149 x\<bar> < 2 ^ 128 \<Longrightarrow> to_float32 x = Finite (round_to 24 149 x)"
  by (simp add: to_float32_def Let_def)

lemma to_float32_exact:
  assumes m: "\<bar>m\<bar> < 2 ^ 24" and i: "i \<le> 125"
  shows "to_float32 (of_int m / 2 ^ i) = Finite (of_int m / 2 ^ i)"
proof -
  have r: "round_to 24 149 (of_int m / 2 ^ i) = of_int m / 2 ^ i"
    using m i by (intro round_to_exact) simp_all
  have "\<bar>real_of_int m\<bar> < 2 ^ 24"
    using m by (metis of_int_abs of_int_less_iff of_int_numeral of_int_power)
  moreover have "\<bar>real_of_int m / 2 ^ i\<bar> \<le> \<bar>real_of_int m\<bar>"
    by (simp add: divide_le_eq mult_le_cancel_left1)
  ultimately have "\<bar>real_of_int m / 2 ^ i\<bar> < 2 ^ 128" by simp
  then show ?thesis by (simp only: to_float32_Finite r)
qed

lemma to_float32_shift:
  assumes lo: "2 ^ 23 \<le> \<bar>x\<bar> * 2 ^ j" and hi: "\<bar>x\<bar> * 2 ^ j < 2 ^ 24" and j: "j \<le> 149"
  shows "to_float32 x = Finite (of_int (round_even (x * 2 ^ j)) / 2 ^ j)"
proof -
  have r: "round_to 24 149 x = of_int (round_even (x * 2 ^ j)) / 2 ^ j"
    using lo hi j by (intro round_to_shift) simp_all
  have "\<bar>real_of_int (round_even (x * 2 ^ j))\<bar> \<le> \<bar>x * 2 ^ j\<bar> + 1 / 2"
    using round_even_error [of "x * 2 ^ j"] by linarith
  also have "\<dots> < 2 ^ 24 + 1" using hi by (simp add: abs_mult)
  finally have "\<bar>real_of_int (round_even (x * 2 ^ j))\<bar> < 2 ^ 24 + 1" .
  moreover have "\<bar>real_of_int (round_even (x * 2 ^ j)) / 2 ^ j\<bar> \<le> \<bar>real_of_int (round_even (x * 2 ^ j))\<bar>"
    by (simp add: divide_le_eq mult_le_cancel_left1)
  ultimately have "\<bar>real_of_int (round_even (x * 2 ^ j)) / 2 ^ j\<bar> < 2 ^ 128" by simp
  then show ?thesis by (simp only: to_float32_Finite r)
qed


lemma to_float32_zero: "to_float32 0 = Finite 0"
  by (simp add: to_float32_def round_to_zero)




lemma to_float32_rel:
  assumes x: "\<bar>x\<bar> \<le> 2 ^ 126"
  shows "\<exists>v. to_float32 x = Finite v \<and> \<bar>v - x\<bar> \<le> \<bar>x\<bar> / 2 ^ 24 + 1 / 2 ^ 150"
proof -
  have e: "\<bar>round_to 24 149 x - x\<bar> \<le> \<bar>x\<bar> / 2 ^ 24 + 1 / 2 ^ 150"
    using round_to_rel_error [of 24 149 x] by simp
  have "\<bar>x\<bar> / 2 ^ 24 \<le> \<bar>x\<bar>" by (simp add: divide_le_eq mult_le_cancel_left1)
  moreover have "(1::real) / 2 ^ 150 \<le> 1" by simp
  ultimately have "\<bar>round_to 24 149 x\<bar> \<le> \<bar>x\<bar> + \<bar>x\<bar> + 1" using e by linarith
  also have "\<dots> \<le> 2 ^ 126 + 2 ^ 126 + 1" using x by simp
  also have "\<dots> < (2::real) ^ 128" by simp
  finally have "to_float32 x = Finite (round_to 24 149 x)" by (rule to_float32_Finite)
  with e show ?thesis by blast
qed

lemma gravity_value: "SENSORS_GRAVITY_STANDARD = Finite (5141509 / 524288)"
  unfolding SENSORS_GRAVITY_STANDARD_def
  by (subst to_float32_shift [of _ 20]) (simp_all add: round_even_def)

lemma sint16_bounds: "- 32768 \<le> sint (w :: i16)" "sint (w :: i16) < 32768"
  using sint_ge [of w] sint_lt [of w] by simp_all


lemma gravity_product_near:
  assumes a: "\<bar>a\<bar> \<le> 2 ^ 100"
  shows "\<exists>v. f32_mult (Finite a) (Finite (5141509 / 524288)) = Finite v \<and>
             \<bar>v - a * (980665 / 100000)\<bar> \<le> \<bar>a\<bar> / 10 ^ 6 + 1 / 2 ^ 150"
proof -
  define x where "x = a * (5141509 / 524288)"
  have ax: "\<bar>x\<bar> = \<bar>a\<bar> * (5141509 / 524288)" by (simp add: x_def abs_mult)
  have "\<bar>x\<bar> \<le> 2 ^ 100 * 16" unfolding ax using a by simp
  then have "\<bar>x\<bar> \<le> 2 ^ 126" by simp
  from to_float32_rel [OF this] obtain v where
    v: "to_float32 x = Finite v" "\<bar>v - x\<bar> \<le> \<bar>x\<bar> / 2 ^ 24 + 1 / 2 ^ 150" by auto
  define dlt :: real where "dlt = 5141509 / 524288 - 980665 / 100000"
  define rel :: real where "rel = 5141509 / 524288 / 2 ^ 24"
  have dpos: "0 \<le> dlt" by (simp add: dlt_def)
  have small: "dlt + rel \<le> 1 / 10 ^ 6" by (simp add: dlt_def rel_def)
  have "x - a * (980665 / 100000) = a * dlt"
    by (simp add: x_def dlt_def algebra_simps)
  then have "\<bar>x - a * (980665 / 100000)\<bar> = \<bar>a\<bar> * dlt"
    using dpos by (simp only: abs_mult abs_of_nonneg)
  moreover have "\<bar>x\<bar> / 2 ^ 24 = \<bar>a\<bar> * rel"
    by (simp add: ax rel_def)
  ultimately have "\<bar>v - a * (980665 / 100000)\<bar> \<le> \<bar>a\<bar> * dlt + \<bar>a\<bar> * rel + 1 / 2 ^ 150"
    using v(2) by linarith
  also have "\<dots> = \<bar>a\<bar> * (dlt + rel) + 1 / 2 ^ 150"
    by (simp only: distrib_left)
  also have "\<dots> \<le> \<bar>a\<bar> * (1 / 10 ^ 6) + 1 / 2 ^ 150"
    by (intro add_right_mono mult_left_mono small) simp
  finally have "\<bar>v - a * (980665 / 100000)\<bar> \<le> \<bar>a\<bar> / 10 ^ 6 + 1 / 2 ^ 150" by simp
  with v(1) show ?thesis by (simp add: x_def)
qed


lemma to_double_exact:
  assumes "\<bar>m\<bar> < 2 ^ 53" and "i \<le> 1021"
  shows "to_double (of_int m / 2 ^ i) = of_int m / 2 ^ i"
  unfolding to_double_def using assms by (intro round_to_exact) simp_all

section \<open>The range field\<close>

lemma field_window_read:
  "drop_bit 3 (((val AND NOT (push_bit 3 (push_bit 2 1 - 1))) OR
                push_bit 3 (r AND (push_bit 2 1 - 1))) AND 0xFF) AND (push_bit 2 1 - 1)
     = r AND (3 :: u32)"
proof -
  have m: "(push_bit 2 1 - 1 :: u32) = mask 2" by (simp add: mask_eq_exp_minus_1)
  have f: "(0xFF :: u32) = mask 8" by (simp add: mask_eq_exp_minus_1)
  have t: "(3 :: u32) = mask 2" by (simp add: mask_eq_exp_minus_1)
  show ?thesis unfolding m f t
    by (rule bit_word_eqI) (auto simp: bit_simps)
qed

lemma field_window_bits:
  fixes val r :: u32
  shows "bit (((val AND NOT (push_bit 3 (push_bit 2 1 - 1))) OR
               push_bit 3 (r AND (push_bit 2 1 - 1))) AND 0xFF) n
           \<longleftrightarrow> (if n = 3 then bit r 0 else if n = 4 then bit r 1 else n < 8 \<and> bit val n)"
proof -
  have m: "(push_bit 2 1 - 1 :: u32) = mask 2" by (simp add: mask_eq_exp_minus_1)
  have f: "(0xFF :: u32) = mask 8" by (simp add: mask_eq_exp_minus_1)
  show ?thesis unfolding m f
    by (auto simp: bit_simps)
qed

lemma ucast_low_byte: "(ucast (ucast (v :: u32) :: u8) :: u32) = v AND 0xFF"
proof -
  have f: "(0xFF :: u32) = mask 8" by (simp add: mask_eq_exp_minus_1)
  show ?thesis unfolding f by (rule bit_word_eqI) (auto simp: bit_simps)
qed

lemma and_3_id: "(r :: u32) < 4 \<Longrightarrow> r AND 3 = r"
proof -
  have t: "(3 :: u32) = mask 2" by (simp add: mask_eq_exp_minus_1)
  show "r < 4 \<Longrightarrow> r AND 3 = r" unfolding t
    using less_mask_eq [of r 2] by simp
qed

lemma register_like_regfile: "register_like regfile reg"
  by (simp add: register_like_def regfile_def ucast_low_byte)

lemma RegisterBits_write_value:
  "RegisterBits_write b reg 2 3 r d =
     reg_write b reg
       ((fst (reg_read b reg d) AND NOT (push_bit 3 (push_bit 2 1 - 1))) OR
        push_bit 3 (r AND (push_bit 2 1 - 1)))
       (snd (reg_read b reg d))"
  by (simp only: RegisterBits_write_def Let_def split_beta)

lemma RegisterBits_written_byte:
  assumes "register_like b reg"
  shows "fst (reg_read b reg (RegisterBits_write b reg 2 3 r d)) =
           ((fst (reg_read b reg d) AND NOT (push_bit 3 (push_bit 2 1 - 1))) OR
            push_bit 3 (r AND (push_bit 2 1 - 1))) AND 0xFF"
  using assms by (simp only: RegisterBits_write_value register_like_def)

lemma RegisterBits_write_then_read:
  assumes "register_like b reg"
  shows "fst (RegisterBits_read b reg 2 3 (RegisterBits_write b reg 2 3 r d)) = r AND 3"
proof -
  have "fst (RegisterBits_read b reg 2 3 (RegisterBits_write b reg 2 3 r d))
          = drop_bit 3 (fst (reg_read b reg (RegisterBits_write b reg 2 3 r d))) AND (push_bit 2 1 - 1)"
    by (simp only: RegisterBits_read_def split_beta Let_def fst_conv)
  also have "\<dots> = r AND 3"
    by (simp only: RegisterBits_written_byte [OF assms] field_window_read)
  finally show ?thesis .
qed

lemma set_then_get:
  "register_like b (MPU6050_ACCEL_CONFIG h) \<Longrightarrow>
   fst (getAccelerometerRange h b (setAccelerometerRange h b r s)) = r AND 3"
  using RegisterBits_write_then_read [of b "MPU6050_ACCEL_CONFIG h" r "i2c_dev s"]
  by (simp add: getAccelerometerRange_def setAccelerometerRange_def split_beta)

text \<open>
  C2. On a transport whose accelerometer configuration register keeps what is written,
  and with range enumerators that fit the 2-bit field, \<open>setAccelerometerRange r\<close>
  followed by \<open>getAccelerometerRange\<close> returns \<open>r\<close>, for each of the four range values.
\<close>

theorem set_get_round_trip:
  assumes "register_like b (MPU6050_ACCEL_CONFIG h)"
    and "range_fits h"
    and "r \<in> {MPU6050_RANGE_2_G h, MPU6050_RANGE_4_G h, MPU6050_RANGE_8_G h, MPU6050_RANGE_16_G h}"
  shows "fst (getAccelerometerRange h b (setAccelerometerRange h b r s)) = r"
proof -
  from assms(2,3) have "r < 4" by (auto simp: range_fits_def)
  then have "r AND 3 = r" by (rule and_3_id)
  with set_then_get [OF assms(1)] show ?thesis by simp
qed

theorem set_get_round_trip_witness:
  "register_like regfile (MPU6050_ACCEL_CONFIG datasheet_header) \<and>
   range_fits datasheet_header \<and>
   MPU6050_RANGE_8_G datasheet_header = 2 \<and>
   fst (getAccelerometerRange datasheet_header regfile
          (setAccelerometerRange datasheet_header regfile (MPU6050_RANGE_8_G datasheet_header)
             (static_driver (sample_regs 0xE7)))) = 2"
  using set_get_round_trip [of regfile datasheet_header "MPU6050_RANGE_8_G datasheet_header"
      "static_driver (sample_regs 0xE7)"]
    register_like_regfile [of "MPU6050_ACCEL_CONFIG datasheet_header"]
  by (simp add: range_fits_def datasheet_header_def)

text \<open>
  C9. On a transport whose accelerometer configuration register keeps what is written,
  \<open>setAccelerometerRange\<close> leaves every bit of the register byte outside the 2-bit window
  at offset 3 as a read before the call shows it, for every prior value and every
  argument; the window itself takes the two low bits of the argument, and no cached
  field of the driver changes.
\<close>

theorem setAccelerometerRange_frame:
  assumes "register_like b (MPU6050_ACCEL_CONFIG h)"
  shows "(\<forall>n. n < 8 \<and> n \<noteq> 3 \<and> n \<noteq> 4 \<longrightarrow>
            bit (fst (reg_read b (MPU6050_ACCEL_CONFIG h)
                        (i2c_dev (setAccelerometerRange h b r s)))) n
              = bit (fst (reg_read b (MPU6050_ACCEL_CONFIG h) (i2c_dev s))) n) \<and>
         bit (fst (reg_read b (MPU6050_ACCEL_CONFIG h)
                     (i2c_dev (setAccelerometerRange h b r s)))) 3 = bit r 0 \<and>
         bit (fst (reg_read b (MPU6050_ACCEL_CONFIG h)
                     (i2c_dev (setAccelerometerRange h b r s)))) 4 = bit r 1 \<and>
         (setAccelerometerRange h b r s)\<lparr>i2c_dev := i2c_dev s\<rparr> = s"
proof -
  have dev: "i2c_dev (setAccelerometerRange h b r s)
               = RegisterBits_write b (MPU6050_ACCEL_CONFIG h) 2 3 r (i2c_dev s)"
    by (simp add: setAccelerometerRange_def)
  have bits: "bit (fst (reg_read b (MPU6050_ACCEL_CONFIG h)
                          (i2c_dev (setAccelerometerRange h b r s)))) n
                \<longleftrightarrow> (if n = 3 then bit r 0 else if n = 4 then bit r 1
                     else n < 8 \<and> bit (fst (reg_read b (MPU6050_ACCEL_CONFIG h) (i2c_dev s))) n)"
    for n
    by (simp only: dev RegisterBits_written_byte [OF assms] field_window_bits)
  have cached: "(setAccelerometerRange h b r s)\<lparr>i2c_dev := i2c_dev s\<rparr> = s"
    by (simp add: setAccelerometerRange_def)
  show ?thesis
    using bits [of 3] bits [of 4] cached by (simp add: bits)
qed

theorem setAccelerometerRange_frame_witness:
  "register_like regfile (MPU6050_ACCEL_CONFIG datasheet_header) \<and>
   fst (reg_read regfile (MPU6050_ACCEL_CONFIG datasheet_header)
          (i2c_dev (static_driver (sample_regs 0xEF)))) = 0xEF \<and>
   bit (fst (reg_read regfile (MPU6050_ACCEL_CONFIG datasheet_header)
               (i2c_dev (setAccelerometerRange datasheet_header regfile 2
                           (static_driver (sample_regs 0xEF)))))) 7 \<and>
   \<not> bit (fst (reg_read regfile (MPU6050_ACCEL_CONFIG datasheet_header)
                 (i2c_dev (setAccelerometerRange datasheet_header regfile 2
                             (static_driver (sample_regs 0xEF)))))) 3"
  using setAccelerometerRange_frame [of regfile datasheet_header 2
      "static_driver (sample_regs 0xEF)"]
    register_like_regfile [of "MPU6050_ACCEL_CONFIG datasheet_header"]
  by (simp add: regfile_def datasheet_header_def static_driver_def Adafruit_MPU6050_ctor_def zero_storage_def sample_regs_def)

section \<open>Scaling in \<open>read\<close>\<close>

lemma accel_scale_distinct:
  assumes "distinct [MPU6050_RANGE_2_G h, MPU6050_RANGE_4_G h, MPU6050_RANGE_8_G h, MPU6050_RANGE_16_G h]"
  shows "accel_scale h (MPU6050_RANGE_2_G h) = 16384"
    and "accel_scale h (MPU6050_RANGE_4_G h) = 8192"
    and "accel_scale h (MPU6050_RANGE_8_G h) = 4096"
    and "accel_scale h (MPU6050_RANGE_16_G h) = 2048"
  using assms by (auto simp: accel_scale_def)

lemma accel_scale_cases:
  "accel_scale h r = 2 ^ 0 \<or> accel_scale h r = 2 ^ 11 \<or> accel_scale h r = 2 ^ 12 \<or>
   accel_scale h r = 2 ^ 13 \<or> accel_scale h r = 2 ^ 14"
  by (simp add: accel_scale_def)

text \<open>A 16-bit integer divided by any of the scales is a binary32 value: the quotient is not rounded.\<close>

lemma accel_quotient_exact:
  fixes w :: i16
  shows "to_float32 (real_of_int (sint w) / accel_scale h r) = Finite (real_of_int (sint w) / accel_scale h r)"
proof -
  have "\<bar>sint w\<bar> < 2 ^ 24" using sint16_bounds [of w] by simp
  then have "to_float32 (real_of_int (sint w) / 2 ^ i) = Finite (real_of_int (sint w) / 2 ^ i)"
    if "i \<le> 125" for i
    using that by (rule to_float32_exact)
  from this [of 0] this [of 11] this [of 12] this [of 13] this [of 14] accel_scale_cases [of h r]
  show ?thesis by (elim disjE) (simp_all only: le_numeral_extra numeral_le_iff semiring_norm)
qed

lemma read_unrounded:
  "accX (read h b s) =
     to_float32 (real_of_int (sint (rawAccX (read h b s))) / accel_scale h (read_range h b s))"
  "accY (read h b s) =
     to_float32 (real_of_int (sint (rawAccY (read h b s))) / accel_scale h (read_range h b s))"
  "accZ (read h b s) =
     to_float32 (real_of_int (sint (rawAccZ (read h b s))) / accel_scale h (read_range h b s))"
  by (simp_all add: read_def read_range_def getAccelerometerRange_def split_beta Let_def)

lemma read_fields:
  "rawAccX (read h b s) = be16 (fst (reg_read_buf b (MPU6050_ACCEL_OUT h) 14 (i2c_dev s)) 0)
                               (fst (reg_read_buf b (MPU6050_ACCEL_OUT h) 14 (i2c_dev s)) 1)"
  "rawAccY (read h b s) = be16 (fst (reg_read_buf b (MPU6050_ACCEL_OUT h) 14 (i2c_dev s)) 2)
                               (fst (reg_read_buf b (MPU6050_ACCEL_OUT h) 14 (i2c_dev s)) 3)"
  "rawAccZ (read h b s) = be16 (fst (reg_read_buf b (MPU6050_ACCEL_OUT h) 14 (i2c_dev s)) 4)
                               (fst (reg_read_buf b (MPU6050_ACCEL_OUT h) 14 (i2c_dev s)) 5)"
  "rawTemp (read h b s) = be16 (fst (reg_read_buf b (MPU6050_ACCEL_OUT h) 14 (i2c_dev s)) 6)
                               (fst (reg_read_buf b (MPU6050_ACCEL_OUT h) 14 (i2c_dev s)) 7)"
  "temperature (read h b s) =
     to_float32 (to_double ((real_of_int (sint (rawTemp (read h b s))) + 12412) / 340))"
  by (simp_all add: read_def read_range_def getAccelerometerRange_def split_beta Let_def)

lemma read_accel:
  "accX (read h b s) = Finite (real_of_int (sint (rawAccX (read h b s))) / accel_scale h (read_range h b s))"
  "accY (read h b s) = Finite (real_of_int (sint (rawAccY (read h b s))) / accel_scale h (read_range h b s))"
  "accZ (read h b s) = Finite (real_of_int (sint (rawAccZ (read h b s))) / accel_scale h (read_range h b s))"
  by (simp_all only: read_unrounded accel_quotient_exact)

text \<open>
  C1. With four distinct range enumerators, whichever of the four ranges \<open>read\<close> reads
  back, the three cached accelerations are the raw 16-bit values divided by 16384 for
  2g, 8192 for 4g, 4096 for 8g and 2048 for 16g: the \<^verbatim>\<open>float\<close> quotients are exact.
\<close>

theorem read_accel_divisor:
  assumes "distinct [MPU6050_RANGE_2_G h, MPU6050_RANGE_4_G h, MPU6050_RANGE_8_G h, MPU6050_RANGE_16_G h]"
  shows "(read_range h b s = MPU6050_RANGE_2_G h \<longrightarrow>
            accX (read h b s) = Finite (real_of_int (sint (rawAccX (read h b s))) / 16384) \<and>
            accY (read h b s) = Finite (real_of_int (sint (rawAccY (read h b s))) / 16384) \<and>
            accZ (read h b s) = Finite (real_of_int (sint (rawAccZ (read h b s))) / 16384)) \<and>
         (read_range h b s = MPU6050_RANGE_4_G h \<longrightarrow>
            accX (read h b s) = Finite (real_of_int (sint (rawAccX (read h b s))) / 8192) \<and>
            accY (read h b s) = Finite (real_of_int (sint (rawAccY (read h b s))) / 8192) \<and>
            accZ (read h b s) = Finite (real_of_int (sint (rawAccZ (read h b s))) / 8192)) \<and>
         (read_range h b s = MPU6050_RANGE_8_G h \<longrightarrow>
            accX (read h b s) = Finite (real_of_int (sint (rawAccX (read h b s))) / 4096) \<and>
            accY (read h b s) = Finite (real_of_int (sint (rawAccY (read h b s))) / 4096) \<and>
            accZ (read h b s) = Finite (real_of_int (sint (rawAccZ (read h b s))) / 4096)) \<and>
         (read_range h b s = MPU6050_RANGE_16_G h \<longrightarrow>
            accX (read h b s) = Finite (real_of_int (sint (rawAccX (read h b s))) / 2048) \<and>
            accY (read h b s) = Finite (real_of_int (sint (rawAccY (read h b s))) / 2048) \<and>
            accZ (read h b s) = Finite (real_of_int (sint (rawAccZ (read h b s))) / 2048))"
  by (simp add: read_accel accel_scale_distinct [OF assms])

lemma sample_read_range:
  "read_range datasheet_header regfile (static_driver (sample_regs 0x00)) = 0"
  "read_range datasheet_header regfile (static_driver (sample_regs 0x08)) = 1"
  "read_range datasheet_header regfile (static_driver (sample_regs 0x10)) = 2"
  "read_range datasheet_header regfile (static_driver (sample_regs 0x18)) = 3"
  by (simp_all add: read_range_def getAccelerometerRange_def RegisterBits_read_def regfile_def
      datasheet_header_def static_driver_def Adafruit_MPU6050_ctor_def zero_storage_def
      sample_regs_def)

lemma sample_raw:
  "sint (rawAccX (read datasheet_header regfile (static_driver (sample_regs cfg)))) = 8192"
  "sint (rawAccY (read datasheet_header regfile (static_driver (sample_regs cfg)))) = -8192"
  "sint (rawAccZ (read datasheet_header regfile (static_driver (sample_regs cfg)))) = 0"
  "sint (rawTemp (read datasheet_header regfile (static_driver (sample_regs cfg)))) = -12412"
  by (simp_all add: read_fields be16_def regfile_def datasheet_header_def static_driver_def
      Adafruit_MPU6050_ctor_def zero_storage_def sample_regs_def)

theorem read_accel_divisor_witness:
  "distinct [MPU6050_RANGE_2_G datasheet_header, MPU6050_RANGE_4_G datasheet_header,
             MPU6050_RANGE_8_G datasheet_header, MPU6050_RANGE_16_G datasheet_header] \<and>
   accX (read datasheet_header regfile (static_driver (sample_regs 0x00))) = Finite (1 / 2) \<and>
   accX (read datasheet_header regfile (static_driver (sample_regs 0x08))) = Finite 1 \<and>
   accY (read datasheet_header regfile (static_driver (sample_regs 0x10))) = Finite (- 2) \<and>
   accX (read datasheet_header regfile (static_driver (sample_regs 0x18))) = Finite 4"
  using read_accel_divisor [of datasheet_header regfile "static_driver (sample_regs 0x00)"]
    read_accel_divisor [of datasheet_header regfile "static_driver (sample_regs 0x08)"]
    read_accel_divisor [of datasheet_header regfile "static_driver (sample_regs 0x10)"]
    read_accel_divisor [of datasheet_header regfile "static_driver (sample_regs 0x18)"]
  by (simp add: sample_read_range sample_raw) (simp add: datasheet_header_def)

subsection \<open>Temperature\<close>






section \<open>The identity check and the reset loop\<close>

lemma poll_sentinel_returns:
  "fst (reg_read b reg (poll_state b reg n d)) = 0x40 \<Longrightarrow> \<exists>d'. reset_poll b reg d = Some d'"
proof (induction n arbitrary: d)
  case 0
  then show ?case by (subst reset_poll.simps) (simp add: split_beta)
next
  case (Suc n)
  show ?case
  proof (cases "fst (reg_read b reg d) = 0x40")
    case True
    then show ?thesis by (subst reset_poll.simps) (simp add: split_beta)
  next
    case False
    from Suc.IH [of "delay b 10 (snd (reg_read b reg d))"] Suc.prems
    obtain d' where "reset_poll b reg (delay b 10 (snd (reg_read b reg d))) = Some d'"
      by auto
    with False show ?thesis by (subst reset_poll.simps) (simp add: split_beta)
  qed
qed

lemma poll_returns_sentinel:
  "reset_poll b reg d = Some d' \<Longrightarrow> \<exists>n. reg_read b reg (poll_state b reg n d) = (0x40, d')"
proof (induction b reg d d' rule: reset_poll.raw_induct[rotated 1, consumes 1])
  case (1 poll b reg d d')
  show ?case
  proof (cases "fst (reg_read b reg d) = 0x40")
    case True
    with 1(2) have "reg_read b reg (poll_state b reg 0 d) = (0x40, d')"
      by (auto simp: split_beta prod_eq_iff)
    then show ?thesis by blast
  next
    case False
    with 1(2) have "poll b reg (delay b 10 (snd (reg_read b reg d))) = Some d'"
      by (simp add: split_beta)
    from 1(1) [OF this] obtain n where
      "reg_read b reg (poll_state b reg (Suc n) d) = (0x40, d')" by auto
    then show ?thesis by blast
  qed
qed

lemma reset_poll_None_iff:
  "reset_poll b reg d = None \<longleftrightarrow> (\<forall>n. fst (reg_read b reg (poll_state b reg n d)) \<noteq> 0x40)"
proof
  assume "reset_poll b reg d = None"
  then show "\<forall>n. fst (reg_read b reg (poll_state b reg n d)) \<noteq> 0x40"
    using poll_sentinel_returns [of b reg _ d] by fastforce
next
  assume never: "\<forall>n. fst (reg_read b reg (poll_state b reg n d)) \<noteq> 0x40"
  show "reset_poll b reg d = None"
  proof (cases "reset_poll b reg d")
    case None
    then show ?thesis .
  next
    case (Some d')
    from poll_returns_sentinel [OF this] never show ?thesis by (metis fst_conv)
  qed
qed

lemma reset_poll_sentinel:
  "fst (reg_read b reg d) = 0x40 \<Longrightarrow> reset_poll b reg d = Some (snd (reg_read b reg d))"
  by (subst reset_poll.simps) (simp add: split_beta)

lemma init_mismatch:
  "fst (reg_read b (MPU6050_WHO_AM_I h) (i2c_dev s)) \<noteq> MPU6050_DEVICE_ID h \<Longrightarrow>
   init h b sensorID s = Some (False, s\<lparr>i2c_dev := snd (reg_read b (MPU6050_WHO_AM_I h) (i2c_dev s))\<rparr>)"
  by (simp add: init_def split_beta)

lemma init_match:
  "fst (reg_read b (MPU6050_WHO_AM_I h) (i2c_dev s)) = MPU6050_DEVICE_ID h \<Longrightarrow>
   init h b sensorID s =
     (case reset_poll b (MPU6050_PWR_MGMT_1 h) (reg_write b (MPU6050_PWR_MGMT_1 h) 0x80 (snd (reg_read b (MPU6050_WHO_AM_I h) (i2c_dev s)))) of
        None \<Rightarrow> None
      | Some d3 \<Rightarrow>
          Some (True, s\<lparr>sensorid_accel := sensorID, sensorid_gyro := sensorID + 1,
                        sensorid_temp := sensorID + 2,
                        i2c_dev := delay b 100
                          (reg_write b (MPU6050_PWR_MGMT_1 h) 0x01
                            (reg_write b (MPU6050_ACCEL_CONFIG h) 0x00
                              (reg_write b (MPU6050_GYRO_CONFIG h) 0x08
                                (reg_write b (MPU6050_CONFIG h) 0x00
                                  (reg_write b (MPU6050_SMPLRT_DIV h) 0x00 d3)))))\<rparr>))"
  by (simp add: init_def split_beta Let_def split: option.splits)

lemma init_True:
  assumes "init h b sensorID s = Some (True, s')"
  shows "fst (reg_read b (MPU6050_WHO_AM_I h) (i2c_dev s)) = MPU6050_DEVICE_ID h"
    and "sensorid_accel s' = sensorID"
    and "sensorid_gyro s' = sensorID + 1"
    and "sensorid_temp s' = sensorID + 2"
proof -
  show m: "fst (reg_read b (MPU6050_WHO_AM_I h) (i2c_dev s)) = MPU6050_DEVICE_ID h"
    using assms init_mismatch [of b h s sensorID] by (cases "fst (reg_read b (MPU6050_WHO_AM_I h) (i2c_dev s)) = MPU6050_DEVICE_ID h") auto
  from assms show "sensorid_accel s' = sensorID" "sensorid_gyro s' = sensorID + 1" "sensorid_temp s' = sensorID + 2"
    by (auto simp: init_match [OF m] split: option.splits)
qed

lemma begin_closed:
  "\<not> fst (dev_begin b address (i2c_dev s)) \<Longrightarrow>
   begin_mpu h b address sensorID s = Some (False, s\<lparr>i2c_dev := snd (dev_begin b address (i2c_dev s))\<rparr>)"
  by (simp add: begin_mpu_def split_beta)

lemma begin_opened:
  "fst (dev_begin b address (i2c_dev s)) \<Longrightarrow>
   begin_mpu h b address sensorID s = init h b sensorID (s\<lparr>i2c_dev := snd (dev_begin b address (i2c_dev s))\<rparr>)"
  by (simp add: begin_mpu_def split_beta)

text \<open>
  C3. \<open>begin_mpu\<close> returns false, and returns, when the transport does not open and
  when the identification read returns any value other than the device id (the driver
  is then as before, but for the device state); it returns true only when the transport
  has opened and the identification read has returned the device id.
\<close>

theorem begin_identity_check:
  "(\<not> fst (dev_begin b address (i2c_dev s)) \<longrightarrow>
      begin_mpu h b address sensorID s =
        Some (False, s\<lparr>i2c_dev := snd (dev_begin b address (i2c_dev s))\<rparr>)) \<and>
   (fst (dev_begin b address (i2c_dev s)) \<and> chip_id_read h b address s \<noteq> MPU6050_DEVICE_ID h \<longrightarrow>
      begin_mpu h b address sensorID s =
        Some (False, s\<lparr>i2c_dev := snd (reg_read b (MPU6050_WHO_AM_I h)
                                         (snd (dev_begin b address (i2c_dev s))))\<rparr>)) \<and>
   (\<forall>s'. begin_mpu h b address sensorID s = Some (True, s') \<longrightarrow>
      fst (dev_begin b address (i2c_dev s)) \<and> chip_id_read h b address s = MPU6050_DEVICE_ID h)"
proof (intro conjI impI allI)
  assume "\<not> fst (dev_begin b address (i2c_dev s))"
  then show "begin_mpu h b address sensorID s =
        Some (False, s\<lparr>i2c_dev := snd (dev_begin b address (i2c_dev s))\<rparr>)"
    by (rule begin_closed)
next
  assume a: "fst (dev_begin b address (i2c_dev s)) \<and> chip_id_read h b address s \<noteq> MPU6050_DEVICE_ID h"
  then show "begin_mpu h b address sensorID s =
        Some (False, s\<lparr>i2c_dev := snd (reg_read b (MPU6050_WHO_AM_I h)
                                         (snd (dev_begin b address (i2c_dev s))))\<rparr>)"
    by (simp add: begin_opened init_mismatch chip_id_read_def)
next
  fix s' assume t: "begin_mpu h b address sensorID s = Some (True, s')"
  then show o: "fst (dev_begin b address (i2c_dev s))"
    using begin_closed [of b address s h sensorID] by (cases "fst (dev_begin b address (i2c_dev s))") auto
  from t show "chip_id_read h b address s = MPU6050_DEVICE_ID h"
    using init_True(1) [of h b sensorID "s\<lparr>i2c_dev := snd (dev_begin b address (i2c_dev s))\<rparr>" s']
    by (simp add: begin_opened [OF o] chip_id_read_def)
qed

lemma sample_begin:
  "\<exists>s'. begin_mpu datasheet_header (resetting_chip 0x6B) 0x68 10
          (static_driver (sample_regs 0)) = Some (True, s')"
  by (simp add: begin_mpu_def init_def reset_poll_sentinel resetting_chip_def datasheet_header_def
      static_driver_def Adafruit_MPU6050_ctor_def zero_storage_def sample_regs_def)

theorem begin_identity_check_witness:
  "\<not> fst (dev_begin closed_bus 0x68 (i2c_dev (static_driver (sample_regs 0)))) \<and>
   map_option fst (begin_mpu datasheet_header closed_bus 0x68 10
                     (static_driver (sample_regs 0))) = Some False \<and>
   fst (dev_begin regfile 0x68 (i2c_dev (static_driver blank_regs))) \<and>
   chip_id_read datasheet_header regfile 0x68 (static_driver blank_regs)
     \<noteq> MPU6050_DEVICE_ID datasheet_header \<and>
   map_option fst (begin_mpu datasheet_header regfile 0x68 10
                     (static_driver blank_regs)) = Some False \<and>
   (\<exists>s'. begin_mpu datasheet_header (resetting_chip 0x6B) 0x68 10
            (static_driver (sample_regs 0)) = Some (True, s')) \<and>
   chip_id_read datasheet_header (resetting_chip 0x6B) 0x68 (static_driver (sample_regs 0))
     = MPU6050_DEVICE_ID datasheet_header"
proof -
  have closed: "\<not> fst (dev_begin closed_bus 0x68 (i2c_dev (static_driver (sample_regs 0))))"
    by (simp add: closed_bus_def)
  have opened: "fst (dev_begin regfile 0x68 (i2c_dev (static_driver blank_regs)))"
    by (simp add: regfile_def)
  have other: "chip_id_read datasheet_header regfile 0x68 (static_driver blank_regs)
                 \<noteq> MPU6050_DEVICE_ID datasheet_header"
    by (simp add: chip_id_read_def regfile_def datasheet_header_def static_driver_def
        Adafruit_MPU6050_ctor_def zero_storage_def blank_regs_def)
  from sample_begin obtain s' where ok:
    "begin_mpu datasheet_header (resetting_chip 0x6B) 0x68 10
       (static_driver (sample_regs 0)) = Some (True, s')" ..
  show ?thesis
    using begin_identity_check [of closed_bus "0x68" "static_driver (sample_regs 0)" datasheet_header 10]
      begin_identity_check [of regfile "0x68" "static_driver blank_regs" datasheet_header 10]
      begin_identity_check [of "resetting_chip 0x6B" "0x68" "static_driver (sample_regs 0)" datasheet_header 10]
      closed opened other ok
    by simp
qed

text \<open>
  C5. Once the transport has opened and the identity check has passed, \<open>begin_mpu\<close>
  writes the reset bit and then reads the power management register again and again,
  10 ms apart, with no bound: it never returns exactly when no read of that sequence
  returns the sentinel \<open>0x40\<close>; so it returns only after a read has returned the
  sentinel, and on a transport whose reads never return it, it never terminates.
\<close>

theorem begin_reset_poll_unbounded:
  assumes "fst (dev_begin b address (i2c_dev s))"
    and "chip_id_read h b address s = MPU6050_DEVICE_ID h"
  shows "begin_mpu h b address sensorID s = None \<longleftrightarrow>
           (\<forall>n. fst (reg_read b (MPU6050_PWR_MGMT_1 h)
                        (poll_state b (MPU6050_PWR_MGMT_1 h) n (reset_written h b address s)))
                  \<noteq> 0x40)"
proof -
  have "begin_mpu h b address sensorID s = None \<longleftrightarrow>
          reset_poll b (MPU6050_PWR_MGMT_1 h) (reset_written h b address s) = None"
    using assms(2)
    by (simp add: begin_opened [OF assms(1)] init_match chip_id_read_def reset_written_def
        split: option.splits)
  then show ?thesis by (simp only: reset_poll_None_iff)
qed

lemma poll_state_regfile: "poll_state regfile reg n d = d"
  by (induction n arbitrary: d) (simp_all add: regfile_def)

theorem begin_reset_poll_unbounded_witness:
  "fst (dev_begin regfile 0x68 (i2c_dev (static_driver (sample_regs 0)))) \<and>
   chip_id_read datasheet_header regfile 0x68 (static_driver (sample_regs 0))
     = MPU6050_DEVICE_ID datasheet_header \<and>
   begin_mpu datasheet_header regfile 0x68 10 (static_driver (sample_regs 0)) = None"
proof -
  have opened: "fst (dev_begin regfile 0x68 (i2c_dev (static_driver (sample_regs 0))))"
    by (simp add: regfile_def)
  have ident: "chip_id_read datasheet_header regfile 0x68 (static_driver (sample_regs 0))
                 = MPU6050_DEVICE_ID datasheet_header"
    by (simp add: chip_id_read_def regfile_def datasheet_header_def static_driver_def Adafruit_MPU6050_ctor_def zero_storage_def
        sample_regs_def)
  have stuck: "fst (reg_read regfile (MPU6050_PWR_MGMT_1 datasheet_header)
                 (poll_state regfile (MPU6050_PWR_MGMT_1 datasheet_header) n
                    (reset_written datasheet_header regfile 0x68
                       (static_driver (sample_regs 0))))) = 0x80" for n
    unfolding poll_state_regfile
    by (simp add: reset_written_def regfile_def datasheet_header_def)
  show ?thesis
    using begin_reset_poll_unbounded [OF opened ident, of 10] opened ident
    by (simp add: stuck)
qed

text \<open>
  C6. After a successful \<open>begin_mpu\<close> with base identifier \<open>base\<close>, the driver
  holds the identifiers \<open>base\<close>, \<open>base + 1\<close> and \<open>base + 2\<close> for acceleration, gyro
  and temperature, in the arithmetic of \<^verbatim>\<open>int32_t\<close>; they are the integers
  \<open>base + 1\<close> and \<open>base + 2\<close> whenever these fit. The instance shows 10, 11 and 12.
\<close>

theorem begin_sensor_ids:
  assumes "begin_mpu h b address base s = Some (True, s')"
  shows "sensorid_accel s' = base \<and> sensorid_gyro s' = base + 1 \<and> sensorid_temp s' = base + 2 \<and>
         (sint base \<le> 2 ^ 31 - 3 \<longrightarrow>
            sint (sensorid_gyro s') = sint base + 1 \<and> sint (sensorid_temp s') = sint base + 2)"
proof -
  have o: "fst (dev_begin b address (i2c_dev s))"
    using assms begin_closed [of b address s h base]
    by (cases "fst (dev_begin b address (i2c_dev s))") auto
  from assms have i: "init h b base (s\<lparr>i2c_dev := snd (dev_begin b address (i2c_dev s))\<rparr>) = Some (True, s')"
    by (simp add: begin_opened [OF o])
  have ids: "sensorid_accel s' = base" "sensorid_gyro s' = base + 1" "sensorid_temp s' = base + 2"
    using init_True(2-4) [OF i] by simp_all
  have "sint (base + 1) = sint base + 1" "sint (base + 2) = sint base + 2" if "sint base \<le> 2 ^ 31 - 3"
    using that sint_ge [of base]
    by (simp_all add: sint_word_ariths signed_take_bit_int_eq_self)
  with ids show ?thesis by simp
qed

theorem begin_sensor_ids_witness:
  "\<exists>s'. begin_mpu datasheet_header (resetting_chip 0x6B) 0x68 10
           (static_driver (sample_regs 0)) = Some (True, s') \<and>
         sensorid_accel s' = 10 \<and> sensorid_gyro s' = 11 \<and> sensorid_temp s' = 12 \<and>
         sint (sensorid_temp s') = 12"
proof -
  from sample_begin obtain s' where ok:
    "begin_mpu datasheet_header (resetting_chip 0x6B) 0x68 10
       (static_driver (sample_regs 0)) = Some (True, s')" ..
  from begin_sensor_ids [OF ok] have "sensorid_accel s' = 10 \<and> sensorid_gyro s' = 11 \<and> sensorid_temp s' = 12 \<and>
         sint (sensorid_temp s') = 12"
    by simp
  with ok show ?thesis by blast
qed

section \<open>Events\<close>

lemma getEvent_fields:
  "payload (accel_event h s) =
     Acceleration (f32_mult (accX s) SENSORS_GRAVITY_STANDARD)
                  (f32_mult (accY s) SENSORS_GRAVITY_STANDARD)
                  (f32_mult (accZ s) SENSORS_GRAVITY_STANDARD)"
  "payload (gyro_event h s) = Gyro (gyroX s) (gyroY s) (gyroZ s)"
  "payload (temp_event h s) = Temperature (temperature s)"
  by (simp_all add: getEvent_def accel_event_def gyro_event_def temp_event_def)

lemma gravity_product_zero: "f32_mult (Finite 0) SENSORS_GRAVITY_STANDARD = Finite 0"
  by (simp add: gravity_value to_float32_zero)

lemma gravity_product_one:
  "f32_mult (Finite 1) SENSORS_GRAVITY_STANDARD = Finite (5141509 / 524288)"
  "f32_mult (Finite (- 1)) SENSORS_GRAVITY_STANDARD = Finite (- (5141509 / 524288))"
  using to_float32_exact [of 5141509 19] to_float32_exact [of "- 5141509" 19]
  by (simp_all add: gravity_value)

lemma sample_cached:
  "accX (read datasheet_header regfile (static_driver (sample_regs 0x08))) = Finite 1"
  "accY (read datasheet_header regfile (static_driver (sample_regs 0x08))) = Finite (- 1)"
  "accZ (read datasheet_header regfile (static_driver (sample_regs 0x08))) = Finite 0"
  by (simp_all add: read_accel sample_read_range sample_raw)
    (simp_all add: accel_scale_def datasheet_header_def)



text \<open>
  C8, as stated, after a \<open>read\<close> that has cached the accelerations 1, -1 and 0: the
  acceleration event does not hold these values multiplied by 9.80665.
\<close>

theorem getEvent_exact_product_counterexample:
  "accX (read datasheet_header regfile (static_driver (sample_regs 0x08))) = Finite 1 \<and>
   accY (read datasheet_header regfile (static_driver (sample_regs 0x08))) = Finite (- 1) \<and>
   accZ (read datasheet_header regfile (static_driver (sample_regs 0x08))) = Finite 0 \<and>
   payload (accel_event datasheet_header
              (read datasheet_header regfile (static_driver (sample_regs 0x08))))
     \<noteq> Acceleration (Finite (1 * (980665 / 100000))) (Finite (- 1 * (980665 / 100000)))
                      (Finite (0 * (980665 / 100000)))"
  by (simp add: getEvent_fields sample_cached gravity_product_one)

text \<open>
  C8, amended. For every driver state, the acceleration event of \<open>getEvent\<close> holds the
  \<^verbatim>\<open>float\<close> products of the cached accelerations and the \<^verbatim>\<open>float\<close> constant
  nearest to 9.80665, which is 5141509/524288: for a finite cached value \<open>a\<close> of
  magnitude at most \<open>2 ^ 100\<close>, a finite value within \<open>\<bar>a\<bar> / 10 ^ 6 + 1 / 2 ^ 150\<close> of
  \<open>a\<close> times 9.80665. The gyro event holds the cached gyro values as they are and the
  temperature event holds the cached temperature; each event has its sensor type and
  its identifier.
\<close>

theorem getEvent_payloads_rounded:
  "payload (accel_event h s) =
     Acceleration (f32_mult (accX s) (Finite (5141509 / 524288)))
                  (f32_mult (accY s) (Finite (5141509 / 524288)))
                  (f32_mult (accZ s) (Finite (5141509 / 524288))) \<and>
   (\<forall>a. accX s = Finite a \<and> \<bar>a\<bar> \<le> 2 ^ 100 \<longrightarrow>
      (\<exists>v. f32_mult (accX s) (Finite (5141509 / 524288)) = Finite v \<and>
           \<bar>v - a * (980665 / 100000)\<bar> \<le> \<bar>a\<bar> / 10 ^ 6 + 1 / 2 ^ 150)) \<and>
   (\<forall>a. accY s = Finite a \<and> \<bar>a\<bar> \<le> 2 ^ 100 \<longrightarrow>
      (\<exists>v. f32_mult (accY s) (Finite (5141509 / 524288)) = Finite v \<and>
           \<bar>v - a * (980665 / 100000)\<bar> \<le> \<bar>a\<bar> / 10 ^ 6 + 1 / 2 ^ 150)) \<and>
   (\<forall>a. accZ s = Finite a \<and> \<bar>a\<bar> \<le> 2 ^ 100 \<longrightarrow>
      (\<exists>v. f32_mult (accZ s) (Finite (5141509 / 524288)) = Finite v \<and>
           \<bar>v - a * (980665 / 100000)\<bar> \<le> \<bar>a\<bar> / 10 ^ 6 + 1 / 2 ^ 150)) \<and>
   payload (gyro_event h s) = Gyro (gyroX s) (gyroY s) (gyroZ s) \<and>
   payload (temp_event h s) = Temperature (temperature s) \<and>
   type (accel_event h s) = SENSOR_TYPE_ACCELEROMETER \<and>
   type (gyro_event h s) = SENSOR_TYPE_GYROSCOPE \<and>
   type (temp_event h s) = SENSOR_TYPE_AMBIENT_TEMPERATURE \<and>
   sensor_id (accel_event h s) = sensorid_accel s \<and>
   sensor_id (gyro_event h s) = sensorid_gyro s \<and>
   sensor_id (temp_event h s) = sensorid_temp s"
proof -
  have near: "\<forall>a. c = Finite a \<and> \<bar>a\<bar> \<le> 2 ^ 100 \<longrightarrow>
      (\<exists>v. f32_mult c (Finite (5141509 / 524288)) = Finite v \<and>
           \<bar>v - a * (980665 / 100000)\<bar> \<le> \<bar>a\<bar> / 10 ^ 6 + 1 / 2 ^ 150)" for c
    using gravity_product_near by blast
  have rest: "type (accel_event h s) = SENSOR_TYPE_ACCELEROMETER \<and>
   type (gyro_event h s) = SENSOR_TYPE_GYROSCOPE \<and>
   type (temp_event h s) = SENSOR_TYPE_AMBIENT_TEMPERATURE \<and>
   sensor_id (accel_event h s) = sensorid_accel s \<and>
   sensor_id (gyro_event h s) = sensorid_gyro s \<and>
   sensor_id (temp_event h s) = sensorid_temp s"
    by (simp add: getEvent_def accel_event_def gyro_event_def temp_event_def)
  show ?thesis
    using near [of "accX s"] near [of "accY s"] near [of "accZ s"] rest
    by (simp only: getEvent_fields gravity_value)
qed

theorem getEvent_payloads_rounded_witness:
  "accX (read datasheet_header regfile (static_driver (sample_regs 0x08))) = Finite 1 \<and>
   \<bar>1 :: real\<bar> \<le> 2 ^ 100 \<and>
   payload (accel_event datasheet_header
              (read datasheet_header regfile (static_driver (sample_regs 0x08))))
     = Acceleration (Finite (5141509 / 524288)) (Finite (- (5141509 / 524288))) (Finite 0) \<and>
   \<bar>5141509 / 524288 - 1 * (980665 / 100000) :: real\<bar> \<le> \<bar>1\<bar> / 10 ^ 6 + 1 / 2 ^ 150"
  using getEvent_payloads_rounded [of datasheet_header
      "read datasheet_header regfile (static_driver (sample_regs 0x08))"]
    gravity_product_one gravity_product_zero
  by (simp add: sample_cached gravity_value)

text \<open>
  C10. \<open>getEvent\<close> returns true for every driver state: for the zero-initialized
  driver before any \<open>read\<close>, and after a \<open>read\<close> or a range write over any
  transport, whatever its transactions returned. The other operations after
  initialization return no status at all.
\<close>

theorem getEvent_returns_true:
  "getEvent_result h s \<and>
   getEvent_result h (static_driver d) \<and>
   getEvent_result h (read h b s) \<and>
   getEvent_result h (setAccelerometerRange h b r s)"
  by (simp add: getEvent_result_def getEvent_def)

end
